theory Spec2Isabelle
  imports Complex_Main "HOL-Library.Char_ord" "HOL-Library.List_Lexorder"
    "HOL-Library.Sublist" "HOL-Library.Multiset"
begin

section \<open>JavaScript values and objects\<close>

text \<open>
  The values that the fields of a JSON object sent by the backend can hold, together
  with \<open>undefined\<close> (the result of reading a property that the object does not have)
  and \<open>NaN\<close> (which \<open>parseInt\<close> and \<open>getTime\<close> can produce). Numbers are the
  integers: ids and epoch milliseconds, of a size that JavaScript holds exactly and
  prints in decimal digits. Nested arrays and objects as field values are outside the
  model. Strings are lists of characters with the codes 0 to 255, the first 256 code
  points of Unicode (Latin-1).
\<close>

datatype jsval = Undefined | Null | Bool bool | Num int | NaN | Str string

type_synonym obj = "string \<Rightarrow> jsval"

text \<open>An object literal \<open>{k1: v1, ..., kn: vn}\<close>; any other property reads \<open>undefined\<close>.\<close>

definition obj_of :: "(string \<times> jsval) list \<Rightarrow> obj" where
  "obj_of kvs = (\<lambda>k. case map_of kvs k of None \<Rightarrow> Undefined | Some v \<Rightarrow> v)"

text \<open>ToBoolean: what \<open>v ? a : b\<close>, \<open>v || d\<close> and \<open>!v\<close> test.\<close>

fun truthy :: "jsval \<Rightarrow> bool" where
  "truthy Undefined = False"
| "truthy Null = False"
| "truthy (Bool b) = b"
| "truthy (Num n) = (n \<noteq> 0)"
| "truthy NaN = False"
| "truthy (Str s) = (s \<noteq> [])"

text \<open>The operator \<open>v || d\<close>.\<close>

definition js_or :: "jsval \<Rightarrow> jsval \<Rightarrow> jsval" where
  "js_or v d = (if truthy v then v else d)"

text \<open>Decimal digits of a natural number, most significant first.\<close>

fun digits :: "nat \<Rightarrow> string" where
  "digits n = (if n < 10 then [''0123456789'' ! n]
               else digits (n div 10) @ [''0123456789'' ! (n mod 10)])"

declare digits.simps [simp del]

text \<open>\<open>String(v)\<close>.\<close>

fun to_string :: "jsval \<Rightarrow> string" where
  "to_string Undefined = ''undefined''"
| "to_string Null = ''null''"
| "to_string (Bool b) = (if b then ''true'' else ''false'')"
| "to_string (Num n) = (if n < 0 then CHR ''-'' # digits (nat (- n)) else digits (nat n))"
| "to_string NaN = ''NaN''"
| "to_string (Str s) = s"

text \<open>A JavaScript number that may be \<open>NaN\<close> (\<open>None\<close>), as a value.\<close>

definition num_val :: "int option \<Rightarrow> jsval" where
  "num_val n = (case n of None \<Rightarrow> NaN | Some k \<Rightarrow> Num k)"

text \<open>
  The white space and line terminators that \<open>String.prototype.trim\<close> strips, among
  the codes 0 to 255: tab, line feed, vertical tab, form feed, carriage return, space
  and no-break space (U+00A0).
\<close>

definition is_space :: "char \<Rightarrow> bool" where
  "is_space c = (c = CHR 0x09 \<or> c = CHR 0x0A \<or> c = CHR 0x0B \<or> c = CHR 0x0C
                 \<or> c = CHR 0x0D \<or> c = CHR '' '' \<or> c = CHR 0xA0)"

definition trim :: "string \<Rightarrow> string" where
  "trim s = rev (dropWhile is_space (rev (dropWhile is_space s)))"

text \<open>
  \<open>String.prototype.toLowerCase\<close> on the codes 0 to 255: the letters A to Z, and the
  capital letters U+00C0 to U+00DE without the multiplication sign U+00D7, each go to the
  letter 32 codes above; every other character stays.
\<close>

definition upper_latin :: string where
  "upper_latin =
     [CHR 0xC0, CHR 0xC1, CHR 0xC2, CHR 0xC3, CHR 0xC4, CHR 0xC5, CHR 0xC6, CHR 0xC7,
      CHR 0xC8, CHR 0xC9, CHR 0xCA, CHR 0xCB, CHR 0xCC, CHR 0xCD, CHR 0xCE, CHR 0xCF,
      CHR 0xD0, CHR 0xD1, CHR 0xD2, CHR 0xD3, CHR 0xD4, CHR 0xD5, CHR 0xD6, CHR 0xD8,
      CHR 0xD9, CHR 0xDA, CHR 0xDB, CHR 0xDC, CHR 0xDD, CHR 0xDE]"

definition lower_latin :: string where
  "lower_latin =
     [CHR 0xE0, CHR 0xE1, CHR 0xE2, CHR 0xE3, CHR 0xE4, CHR 0xE5, CHR 0xE6, CHR 0xE7,
      CHR 0xE8, CHR 0xE9, CHR 0xEA, CHR 0xEB, CHR 0xEC, CHR 0xED, CHR 0xEE, CHR 0xEF,
      CHR 0xF0, CHR 0xF1, CHR 0xF2, CHR 0xF3, CHR 0xF4, CHR 0xF5, CHR 0xF6, CHR 0xF8,
      CHR 0xF9, CHR 0xFA, CHR 0xFB, CHR 0xFC, CHR 0xFD, CHR 0xFE]"

definition lower_char :: "char \<Rightarrow> char" where
  "lower_char c =
     (case map_of (zip (''ABCDEFGHIJKLMNOPQRSTUVWXYZ'' @ upper_latin)
                       (''abcdefghijklmnopqrstuvwxyz'' @ lower_latin)) c of
        None \<Rightarrow> c
      | Some l \<Rightarrow> l)"

definition toLowerCase :: "string \<Rightarrow> string" where
  "toLowerCase s = map lower_char s"

text \<open>\<open>s.includes(q)\<close>: \<open>q\<close> occurs in \<open>s\<close> as a contiguous run.\<close>

definition includes_str :: "string \<Rightarrow> string \<Rightarrow> bool" where
  "includes_str s q = sublist q s"

section \<open>Errors and client tasks\<close>

datatype error =
    Session_Expired
  | Request_Failed
  | Server_Message string
  | Network_Error
  | Syntax_Error
  | Type_Error

text \<open>The client representation of a task, the object that \<open>normalizeTask\<close> builds.\<close>

record task =
  task_id :: string
  title :: jsval
  desc :: jsval
  category :: string
  priority :: jsval
  status :: jsval
  due :: jsval
  createdAt :: "int option"

section \<open>The platform\<close>

text \<open>
  What the code takes from the JavaScript runtime and the clock, as parameters:
  \<open>dateTime v\<close> is \<open>new Date(v).getTime()\<close> (\<open>None\<close> is \<open>NaN\<close>, an invalid date),
  \<open>parseInt v\<close> is \<open>parseInt(v)\<close>, \<open>localeCompare a b\<close> is \<open>a.localeCompare(b)\<close>,
  \<open>today\<close> is the text \<open>new Date().toISOString().slice(0, 10)\<close>, the calendar
  date in UTC, such as 2024-01-05, and \<open>now\<close> is the time value of \<open>new Date()\<close>
  in milliseconds. \<open>engine_sort c xs\<close> is what the engine's \<open>Array.prototype.sort\<close>
  makes of the array \<open>xs\<close> with the comparison function \<open>c\<close> where the language
  leaves the order to the engine (see \<open>js_sort\<close>). \<open>local_date\<close> is the calendar
  date in the time zone of the browser, written like \<open>today\<close>; the code never reads
  it, the specification speaks of it. West of Greenwich it is a day behind \<open>today\<close>
  in the evening, east of Greenwich a day ahead in the morning.
\<close>

record platform =
  dateTime :: "jsval \<Rightarrow> int option"
  parseInt :: "jsval \<Rightarrow> int option"
  localeCompare :: "string \<Rightarrow> string \<Rightarrow> int"
  today :: string
  now :: int
  engine_sort :: "(task \<Rightarrow> task \<Rightarrow> error + int option) \<Rightarrow> task list \<Rightarrow> error + task list"
  local_date :: string

section \<open>Normalization layer\<close>

text \<open>A client task as the JavaScript object it is: its eight properties by name.\<close>

definition task_obj :: "task \<Rightarrow> obj" where
  "task_obj t = obj_of
     [(''id'', Str (task_id t)), (''title'', title t), (''desc'', desc t),
      (''category'', Str (category t)), (''priority'', priority t),
      (''status'', status t), (''due'', due t), (''createdAt'', num_val (createdAt t))]"

definition normalizeTask :: "platform \<Rightarrow> obj \<Rightarrow> task" where
  "normalizeTask pf t =
     \<lparr> task_id = to_string (t ''id''),
       title = t ''title'',
       desc = js_or (t ''desc'') (Str ''''),
       category = (if truthy (t ''category_id'') then to_string (t ''category_id'') else ''''),
       priority = js_or (t ''priority'') (Str ''medium''),
       status = js_or (t ''status'') (Str ''pending''),
       due = js_or (t ''due_date'') (Str ''''),
       createdAt = dateTime pf (t ''created_at'') \<rparr>"

record cat =
  cat_id :: string
  name :: jsval
  color :: jsval

definition normalizeCat :: "obj \<Rightarrow> cat" where
  "normalizeCat c = \<lparr> cat_id = to_string (c ''id''), name = c ''name'', color = c ''color'' \<rparr>"

text \<open>
  \<open>form.title.trim()\<close> is evaluated first and throws a TypeError unless the title is a
  string.
\<close>

definition taskToPayload :: "platform \<Rightarrow> obj \<Rightarrow> error + obj" where
  "taskToPayload pf form =
     (case form ''title'' of
        Str s \<Rightarrow> Inr (obj_of
          [(''title'', Str (trim s)),
           (''desc'', js_or (form ''desc'') (Str '''')),
           (''category_id'', if truthy (form ''category'')
                             then num_val (parseInt pf (form ''category'')) else Null),
           (''priority'', form ''priority''),
           (''status'', form ''status''),
           (''due_date'', js_or (form ''due'') Null)])
      | _ \<Rightarrow> Inl Type_Error)"

text \<open>Reading one property of a payload that was built, or the error.\<close>

definition payload_get :: "string \<Rightarrow> error + obj \<Rightarrow> error + jsval" where
  "payload_get k r = (case r of Inl e \<Rightarrow> Inl e | Inr p \<Rightarrow> Inr (p k))"

section \<open>Date helpers\<close>

text \<open>
  \<open>isOverdue(s)\<close> is \<open>!!(s && s < today())\<close>. Two strings are compared character by
  character; a truthy value that is not a string is compared as a number with the date
  text of \<open>today()\<close>, which is not a number, and such a comparison is false.
\<close>

definition isOverdue :: "platform \<Rightarrow> jsval \<Rightarrow> bool" where
  "isOverdue pf s = (case s of Str x \<Rightarrow> x \<noteq> [] \<and> x < today pf | _ \<Rightarrow> False)"

definition isToday :: "platform \<Rightarrow> jsval \<Rightarrow> bool" where
  "isToday pf s = (s = Str (today pf))"

text \<open>
  \<open>isSoon(s)\<close>: the difference of the two time values in milliseconds, divided by the
  milliseconds of a day; a comparison with \<open>NaN\<close> (an invalid date) is false. The
  quotient is only compared with 0 and 2, and a whole number of milliseconds divided by
  86400000 is below, at or above 0 and 2 in floating point exactly when it is as a real
  number, so the quotient is taken as a real number here.
\<close>

definition isSoon :: "platform \<Rightarrow> jsval \<Rightarrow> bool" where
  "isSoon pf s =
     (if \<not> truthy s then False
      else case dateTime pf (Str (to_string s @ ''T00:00:00'')) of
             None \<Rightarrow> False
           | Some t \<Rightarrow> (let d = real_of_int (t - now pf) / 86400000 in 0 \<le> d \<and> d \<le> 2))"

section \<open>Aggregate counts\<close>

text \<open>The \<open>count\<close> of each navigation item, by its \<open>key\<close>.\<close>

definition navItems :: "platform \<Rightarrow> task list \<Rightarrow> (string \<times> nat) list" where
  "navItems pf ts =
     [(''all'', length ts),
      (''today'', length (filter (\<lambda>t. isToday pf (due t)) ts)),
      (''pending'', length (filter (\<lambda>t. status t = Str ''pending'') ts)),
      (''done'', length (filter (\<lambda>t. status t = Str ''done'') ts))]"

text \<open>
  The \<open>value\<close> of each statistics card, in the order of the source: all tasks, pending,
  done, overdue. (The labels of the source are Chinese texts; the cards are named here
  by what they count.)
\<close>

definition statsCards :: "platform \<Rightarrow> task list \<Rightarrow> (string \<times> nat) list" where
  "statsCards pf ts =
     [(''total'', length ts),
      (''pending'', length (filter (\<lambda>t. status t = Str ''pending'') ts)),
      (''done'', length (filter (\<lambda>t. status t = Str ''done'') ts)),
      (''overdue'', length (filter (\<lambda>t. status t = Str ''pending'' \<and> isOverdue pf (due t)) ts))]"

text \<open>The number that an item or a card with the given key shows.\<close>

definition count_of :: "string \<Rightarrow> (string \<times> nat) list \<Rightarrow> nat" where
  "count_of k items = (case map_of items k of None \<Rightarrow> 0 | Some n \<Rightarrow> n)"

section \<open>The derived task view\<close>

text \<open>
  The search callback \<open>t.title.toLowerCase().includes(q) || t.desc.toLowerCase().includes(q)\<close>:
  \<open>toLowerCase\<close> on a value that is not a string throws a TypeError, and the
  description is only looked at when the title does not match.
\<close>

definition matchesSearch :: "string \<Rightarrow> task \<Rightarrow> error + bool" where
  "matchesSearch q t =
     (case title t of
        Str s \<Rightarrow>
          if includes_str (toLowerCase s) q then Inr True
          else (case desc t of
                  Str d \<Rightarrow> Inr (includes_str (toLowerCase d) q)
                | _ \<Rightarrow> Inl Type_Error)
      | _ \<Rightarrow> Inl Type_Error)"

text \<open>\<open>Array.prototype.filter\<close> with a callback that may throw.\<close>

fun filter_e :: "('a \<Rightarrow> error + bool) \<Rightarrow> 'a list \<Rightarrow> error + 'a list" where
  "filter_e p [] = Inr []"
| "filter_e p (x # xs) =
     (case p x of
        Inl e \<Rightarrow> Inl e
      | Inr b \<Rightarrow> (case filter_e p xs of
                    Inl e \<Rightarrow> Inl e
                  | Inr ys \<Rightarrow> Inr (if b then x # ys else ys)))"

text \<open>Subtraction of two numbers that may be \<open>NaN\<close>.\<close>

definition num_sub :: "int option \<Rightarrow> int option \<Rightarrow> int option" where
  "num_sub x y = (case x of None \<Rightarrow> None
                  | Some a \<Rightarrow> (case y of None \<Rightarrow> None | Some b \<Rightarrow> Some (a - b)))"

text \<open>
  \<open>o[p]\<close> for the table \<open>o = {high:0, medium:1, low:2}\<close>, as a number: any other key
  reads \<open>undefined\<close> (or an inherited function), which is \<open>NaN\<close> in a subtraction.
\<close>

definition rank :: "jsval \<Rightarrow> int option" where
  "rank p = (if p = Str ''high'' then Some 0
             else if p = Str ''medium'' then Some 1
             else if p = Str ''low'' then Some 2
             else None)"

text \<open>
  The comparison function given to \<open>sort\<close>. \<open>a.due.localeCompare(b.due)\<close> throws a
  TypeError when the truthy \<open>a.due\<close> is not a string, and converts its argument to a
  string.
\<close>

definition compareTasks :: "platform \<Rightarrow> string \<Rightarrow> task \<Rightarrow> task \<Rightarrow> error + int option" where
  "compareTasks pf sortBy a b =
     (if sortBy = ''created_desc'' then Inr (num_sub (createdAt b) (createdAt a))
      else if sortBy = ''created_asc'' then Inr (num_sub (createdAt a) (createdAt b))
      else if sortBy = ''due_asc'' then
        (if \<not> truthy (due a) then Inr (Some 1)
         else if \<not> truthy (due b) then Inr (Some (- 1))
         else (case due a of
                 Str s \<Rightarrow> Inr (Some (localeCompare pf s (to_string (due b))))
               | _ \<Rightarrow> Inl Type_Error))
      else if sortBy = ''due_desc'' then
        (if \<not> truthy (due a) then Inr (Some 1)
         else if \<not> truthy (due b) then Inr (Some (- 1))
         else (case due b of
                 Str s \<Rightarrow> Inr (Some (localeCompare pf s (to_string (due a))))
               | _ \<Rightarrow> Inl Type_Error))
      else if sortBy = ''priority'' then Inr (num_sub (rank (priority a)) (rank (priority b)))
      else Inr (Some 0))"

text \<open>
  A stable insertion sort with a comparison function: each element in turn is placed
  before the first element already placed that it compares less than, that is, for
  which the comparison is negative. A comparison result \<open>NaN\<close> counts as 0, and an
  exception of the comparison function ends the sort.
\<close>

definition sort_value :: "int option \<Rightarrow> int" where
  "sort_value v = (case v of None \<Rightarrow> 0 | Some n \<Rightarrow> n)"

fun insert_sorted :: "('a \<Rightarrow> 'a \<Rightarrow> error + int option) \<Rightarrow> 'a \<Rightarrow> 'a list \<Rightarrow> error + 'a list" where
  "insert_sorted c x [] = Inr [x]"
| "insert_sorted c x (y # ys) =
     (case c x y of
        Inl e \<Rightarrow> Inl e
      | Inr v \<Rightarrow>
          if sort_value v < 0 then Inr (x # y # ys)
          else (case insert_sorted c x ys of
                  Inl e \<Rightarrow> Inl e
                | Inr zs \<Rightarrow> Inr (y # zs)))"

fun sort_into :: "('a \<Rightarrow> 'a \<Rightarrow> error + int option) \<Rightarrow> 'a list \<Rightarrow> 'a list \<Rightarrow> error + 'a list" where
  "sort_into c acc [] = Inr acc"
| "sort_into c acc (x # xs) =
     (case insert_sorted c x acc of
        Inl e \<Rightarrow> Inl e
      | Inr acc' \<Rightarrow> sort_into c acc' xs)"

text \<open>
  \<open>negative c x y\<close>: the comparison of \<open>x\<close> with \<open>y\<close> returns a negative number.
  \<open>orderly c xs\<close>: among the elements of \<open>xs\<close> every comparison returns, and
  "negative" is a strict weak order: never negative both ways, transitive, and "not
  negative" is transitive too.
\<close>

definition negative :: "('a \<Rightarrow> 'a \<Rightarrow> error + int option) \<Rightarrow> 'a \<Rightarrow> 'a \<Rightarrow> bool" where
  "negative c x y = (case c x y of Inl e \<Rightarrow> False | Inr v \<Rightarrow> sort_value v < 0)"

definition orderly :: "('a \<Rightarrow> 'a \<Rightarrow> error + int option) \<Rightarrow> 'a list \<Rightarrow> bool" where
  "orderly c xs =
     list_all (\<lambda>x. list_all (\<lambda>y.
         \<not> isl (c x y)
         \<and> \<not> (negative c x y \<and> negative c y x)
         \<and> list_all (\<lambda>z.
               (if negative c x y \<and> negative c y z then negative c x z else True)
               \<and> (if \<not> negative c x y \<and> \<not> negative c y z then \<not> negative c x z else True))
             xs) xs) xs"

text \<open>
  \<open>Array.prototype.sort\<close> with a comparison function. The language fixes the result
  for a consistent comparison function only, and leaves the order to the engine
  otherwise. Where the comparisons among the elements are orderly, a stable sort that
  only asks whether a comparison is negative (as the sort of V8 does) returns the list
  that the stable insertion sort builds, and for a consistent comparison function that
  is the list every engine returns; this is the result then. The two due-date
  comparisons are orderly on tasks whose due dates are strings, but return 1 for two
  tasks without a due date, whichever comes first; an engine that asks whether a
  comparison is positive may then order such tasks among themselves differently, and no
  property below speaks about their order. Where the comparisons are not orderly (one
  throws, or a result \<open>NaN\<close> leaves two elements unordered that a third one
  separates), the result is what the engine makes of it, \<open>engine_sort\<close>.
\<close>

definition js_sort ::
  "platform \<Rightarrow> (task \<Rightarrow> task \<Rightarrow> error + int option) \<Rightarrow> task list \<Rightarrow> error + task list" where
  "js_sort pf c xs = (if orderly c xs then sort_into c [] xs else engine_sort pf c xs)"

text \<open>
  Arrays live in a store and are named by their address, so that sorting in place and
  copying are told apart: \<open>alloc\<close> places a new array after all existing ones.
\<close>

type_synonym store = "task list list"

definition alloc :: "task list \<Rightarrow> store \<Rightarrow> nat \<times> store" where
  "alloc xs st = (length st, st @ [xs])"

text \<open>
  The spread \<open>[...xs]\<close> of the array at an address, and \<open>list = list.filter(p)\<close>:
  each makes a new array, and the variable \<open>list\<close> then names it. A variable is an
  address together with the store it is read in.
\<close>

definition spread :: "nat \<Rightarrow> store \<Rightarrow> nat \<times> store" where
  "spread r st = alloc (st ! r) st"

definition filter_in :: "(task \<Rightarrow> bool) \<Rightarrow> nat \<times> store \<Rightarrow> nat \<times> store" where
  "filter_in p ls = alloc (filter p (snd ls ! fst ls)) (snd ls)"

text \<open>
  \<open>visibleTasks\<close>: \<open>tasks_ref\<close> is the address of the array \<open>tasks.value\<close>. The
  array \<open>list\<close> is sorted in place. The result is the address of the array returned,
  or the exception, and the store that the run leaves.
\<close>

definition visibleTasks ::
  "platform \<Rightarrow> string \<Rightarrow> string \<Rightarrow> string \<Rightarrow> string \<Rightarrow> nat \<Rightarrow> store \<Rightarrow> (error + nat) \<times> store" where
  "visibleTasks pf filter_v priorityF searchQ sortBy tasks_ref st =
     (let ls0 = spread tasks_ref st;
          ls1 = (if filter_v = ''today'' then filter_in (\<lambda>t. isToday pf (due t)) ls0
                 else if filter_v = ''pending''
                   then filter_in (\<lambda>t. status t = Str ''pending'') ls0
                 else if filter_v = ''done''
                   then filter_in (\<lambda>t. status t = Str ''done'') ls0
                 else if filter_v \<noteq> ''all''
                   then filter_in (\<lambda>t. category t = filter_v) ls0
                 else ls0);
          ls2 = (if priorityF \<noteq> ''all''
                   then filter_in (\<lambda>t. priority t = Str priorityF) ls1
                 else ls1)
      in case (if searchQ \<noteq> []
               then (case filter_e (matchesSearch (toLowerCase searchQ)) (snd ls2 ! fst ls2) of
                       Inl e \<Rightarrow> Inl e
                     | Inr ys \<Rightarrow> Inr (alloc ys (snd ls2)))
               else Inr ls2) of
           Inl e \<Rightarrow> (Inl e, snd ls2)
         | Inr ls3 \<Rightarrow>
             (case js_sort pf (compareTasks pf sortBy) (snd ls3 ! fst ls3) of
                Inl e \<Rightarrow> (Inl e, snd ls3)
              | Inr ys \<Rightarrow> (Inr (fst ls3), (snd ls3)[fst ls3 := ys])))"

section \<open>The HTTP client\<close>

text \<open>
  What \<open>fetch\<close> is called with: the method, the address, the bearer credential when
  there is one, and the body when there is one. (The content type header is the same
  in every request and is left out.)
\<close>

record http_request =
  req_method :: string
  req_url :: string
  req_auth :: "string option"
  req_body :: "obj option"

text \<open>
  A response: its status and its body parsed as JSON, \<open>None\<close> when the body is not
  JSON, in which case \<open>res.json()\<close> throws. The parsed body is a JSON object.
\<close>

record response =
  res_status :: nat
  res_body :: "obj option"

text \<open>\<open>res.ok\<close>: the status is in the range 200 to 299.\<close>

definition res_ok :: "response \<Rightarrow> bool" where
  "res_ok res = (200 \<le> res_status res \<and> res_status res \<le> 299)"

text \<open>The promise of \<open>fetch\<close> is rejected (no response) or gives a response.\<close>

datatype fetch_result = Rejected | Responded response

type_synonym network = "http_request \<Rightarrow> fetch_result"

text \<open>
  Messages shown with \<open>ElMessage\<close>. The texts of the source are Chinese; they are kept
  apart here by what they announce.
\<close>

datatype notice =
    Failed error
  | Task_Completed
  | Task_Restored
  | Task_Deleted
  | Task_Updated
  | Task_Created
  | Category_Created
  | Category_Deleted

text \<open>
  The state of the page: the reactive values of \<open>TasksPage\<close>, the local storage, and
  the fragment of the address that selects the view.
\<close>

record app =
  tasks :: "task list"
  categories :: "cat list"
  filter_v :: string
  storage :: "string \<rightharpoonup> string"
  location_hash :: string
  notices :: "notice list"
  saving :: bool
  taskDlg_show :: bool
  taskDlg_isEdit :: bool
  taskDlg_editId :: jsval
  taskForm :: obj
  catDlg_show :: bool
  catForm :: obj

definition API_BASE :: string where
  "API_BASE = ''https://task-manage-production.up.railway.app''"

text \<open>
  The request that \<open>request(method, path, body)\<close> hands to \<open>fetch\<close>: the
  credential is attached when the stored token is a non-empty string, the body when
  there is one.
\<close>

definition request_sent :: "string \<Rightarrow> string \<Rightarrow> obj option \<Rightarrow> app \<Rightarrow> http_request" where
  "request_sent method path body a =
     \<lparr> req_method = method,
       req_url = API_BASE @ path,
       req_auth = (case storage a ''tf_token'' of
                     None \<Rightarrow> None
                   | Some tk \<Rightarrow> if tk \<noteq> [] then Some (''Bearer '' @ tk) else None),
       req_body = body \<rparr>"

text \<open>
  \<open>request(method, path, body)\<close>. The errors thrown are \<open>Session_Expired\<close> for the
  text that says the login has expired, \<open>Server_Message\<close> for \<open>data.message\<close>, and
  \<open>Request_Failed\<close> for the fixed text used when there is no message.
\<close>

definition request ::
  "network \<Rightarrow> string \<Rightarrow> string \<Rightarrow> obj option \<Rightarrow> app \<Rightarrow> (error + obj) \<times> app" where
  "request net method path body a =
     (case net (request_sent method path body a) of
        Rejected \<Rightarrow> (Inl Network_Error, a)
      | Responded res \<Rightarrow>
          if res_status res = 401
          then (Inl Session_Expired,
                a\<lparr> storage := (storage a)(''tf_token'' := None, ''tf_user'' := None),
                   location_hash := ''/login'' \<rparr>)
          else (case res_body res of
                  None \<Rightarrow> (Inl Syntax_Error, a)
                | Some data \<Rightarrow>
                    if \<not> res_ok res
                    then (Inl (if truthy (data ''message'')
                               then Server_Message (to_string (data ''message''))
                               else Request_Failed), a)
                    else (Inr data, a)))"

text \<open>The call \<open>request(method, path, body)\<close> throws.\<close>

definition request_fails :: "network \<Rightarrow> string \<Rightarrow> string \<Rightarrow> obj option \<Rightarrow> app \<Rightarrow> bool" where
  "request_fails net method path body a = isl (fst (request net method path body a))"

section \<open>Task and category operations\<close>

text \<open>\<open>Array.prototype.findIndex\<close>: the first index that satisfies the test, if any.\<close>

fun findIndex :: "('a \<Rightarrow> bool) \<Rightarrow> 'a list \<Rightarrow> nat option" where
  "findIndex p [] = None"
| "findIndex p (x # xs) =
     (if p x then Some 0 else (case findIndex p xs of None \<Rightarrow> None | Some i \<Rightarrow> Some (Suc i)))"

definition notify :: "notice \<Rightarrow> app \<Rightarrow> app" where
  "notify n a = a\<lparr> notices := notices a @ [n] \<rparr>"

definition toggleTaskApi :: "platform \<Rightarrow> network \<Rightarrow> string \<Rightarrow> jsval \<Rightarrow> app \<Rightarrow> app" where
  "toggleTaskApi pf net ident currentStatus a =
     (let newStatus = (if currentStatus = Str ''done'' then ''pending'' else ''done'')
      in case request net ''PUT'' (''/api/tasks/'' @ ident)
                (Some (obj_of [(''status'', Str newStatus)])) a of
           (Inl e, a1) \<Rightarrow> notify (Failed e) a1
         | (Inr updated, a1) \<Rightarrow>
             (let a2 = (case findIndex (\<lambda>t. task_id t = ident) (tasks a1) of
                          None \<Rightarrow> a1
                        | Some idx \<Rightarrow> a1\<lparr> tasks := (tasks a1)[idx := normalizeTask pf updated] \<rparr>)
              in notify (if newStatus = ''done'' then Task_Completed else Task_Restored) a2))"

text \<open>
  \<open>confirmDeleteTask\<close>: \<open>confirmed\<close> is the answer given in the confirmation box.
\<close>

definition confirmDeleteTask :: "network \<Rightarrow> bool \<Rightarrow> string \<Rightarrow> app \<Rightarrow> app" where
  "confirmDeleteTask net confirmed ident a =
     (if \<not> confirmed then a
      else case request net ''DELETE'' (''/api/tasks/'' @ ident) None a of
             (Inl e, a1) \<Rightarrow> notify (Failed e) a1
           | (Inr _, a1) \<Rightarrow>
               notify Task_Deleted (a1\<lparr> tasks := filter (\<lambda>t. task_id t \<noteq> ident) (tasks a1) \<rparr>))"

text \<open>
  \<open>saveTaskApi\<close>: \<open>ok\<close> is the result of the form's validation. The body of the
  \<open>try\<close> block gives the state it reached and, when it threw, the exception.
\<close>

definition saveTask_try :: "platform \<Rightarrow> network \<Rightarrow> app \<Rightarrow> error option \<times> app" where
  "saveTask_try pf net a =
     (case taskToPayload pf (taskForm a) of
        Inl e \<Rightarrow> (Some e, a)
      | Inr payload \<Rightarrow>
          if taskDlg_isEdit a then
            (case request net ''PUT'' (''/api/tasks/'' @ to_string (taskDlg_editId a))
                    (Some payload) a of
               (Inl e, a1) \<Rightarrow> (Some e, a1)
             | (Inr updated, a1) \<Rightarrow>
                 (let a2 = (case findIndex (\<lambda>t. Str (task_id t) = taskDlg_editId a1) (tasks a1) of
                              None \<Rightarrow> a1
                            | Some idx \<Rightarrow>
                                a1\<lparr> tasks := (tasks a1)[idx := normalizeTask pf updated] \<rparr>)
                  in (None, (notify Task_Updated a2)\<lparr> taskDlg_show := False \<rparr>)))
          else
            (case request net ''POST'' ''/api/tasks'' (Some payload) a of
               (Inl e, a1) \<Rightarrow> (Some e, a1)
             | (Inr created, a1) \<Rightarrow>
                 (None, (notify Task_Created
                           (a1\<lparr> tasks := normalizeTask pf created # tasks a1 \<rparr>))
                        \<lparr> taskDlg_show := False \<rparr>)))"

definition saveTaskApi :: "platform \<Rightarrow> network \<Rightarrow> bool \<Rightarrow> app \<Rightarrow> app" where
  "saveTaskApi pf net ok a =
     (if \<not> ok then a
      else case saveTask_try pf net (a\<lparr> saving := True \<rparr>) of
             (Some e, a1) \<Rightarrow> (notify (Failed e) a1)\<lparr> saving := False \<rparr>
           | (None, a1) \<Rightarrow> a1\<lparr> saving := False \<rparr>)"

text \<open>\<open>saveCatApi\<close>: \<open>catForm.name.trim()\<close> throws unless the name is a string.\<close>

definition saveCat_try :: "network \<Rightarrow> app \<Rightarrow> error option \<times> app" where
  "saveCat_try net a =
     (case catForm a ''name'' of
        Str n \<Rightarrow>
          (case request net ''POST'' ''/api/categories''
                  (Some (obj_of [(''name'', Str (trim n)), (''color'', catForm a ''color'')])) a of
             (Inl e, a1) \<Rightarrow> (Some e, a1)
           | (Inr created, a1) \<Rightarrow>
               (None, notify Category_Created
                        (a1\<lparr> categories := categories a1 @ [normalizeCat created],
                             catDlg_show := False \<rparr>)))
      | _ \<Rightarrow> (Some Type_Error, a))"

definition saveCatApi :: "network \<Rightarrow> bool \<Rightarrow> app \<Rightarrow> app" where
  "saveCatApi net ok a =
     (if \<not> ok then a
      else case saveCat_try net (a\<lparr> saving := True \<rparr>) of
             (Some e, a1) \<Rightarrow> (notify (Failed e) a1)\<lparr> saving := False \<rparr>
           | (None, a1) \<Rightarrow> a1\<lparr> saving := False \<rparr>)"

definition deleteCategoryApi :: "network \<Rightarrow> string \<Rightarrow> app \<Rightarrow> app" where
  "deleteCategoryApi net ident a =
     (case request net ''DELETE'' (''/api/categories/'' @ ident) None a of
        (Inl e, a1) \<Rightarrow> notify (Failed e) a1
      | (Inr _, a1) \<Rightarrow>
          (let a2 = a1\<lparr> categories := filter (\<lambda>c. cat_id c \<noteq> ident) (categories a1) \<rparr>;
               a3 = (if filter_v a2 = ident then a2\<lparr> filter_v := ''all'' \<rparr> else a2)
           in notify Category_Deleted a3))"

section \<open>Notions used to state the properties\<close>












text \<open>
  \<open>on_top st ls xs\<close>: the variable \<open>ls\<close> names an array made after the store
  \<open>st\<close>, the last one of its store, which holds \<open>xs\<close> and leaves \<open>st\<close> as it was.
\<close>

definition on_top :: "store \<Rightarrow> nat \<times> store \<Rightarrow> task list \<Rightarrow> bool" where
  "on_top st ls xs = (\<exists>zs. snd ls = st @ zs @ [xs] \<and> fst ls = length st + length zs)"

text \<open>
  The array that a run of \<open>visibleTasks\<close> returned, read in the store that the run
  left, or the exception.
\<close>

definition visible_result :: "(error + nat) \<times> store \<Rightarrow> error + task list" where
  "visible_result r = (case fst r of Inl e \<Rightarrow> Inl e | Inr l \<Rightarrow> Inr (snd r ! l))"

text \<open>
  The same steps on a list alone, without the store; used to reason about the
  contents of the array returned (lemma \<open>visibleTasks_list\<close> relates the two).
\<close>

definition visible_list ::
  "platform \<Rightarrow> string \<Rightarrow> string \<Rightarrow> string \<Rightarrow> string \<Rightarrow> task list \<Rightarrow> error + task list" where
  "visible_list pf view prio q key ts =
     (let l1 = (if view = ''today'' then filter (\<lambda>t. isToday pf (due t)) ts
                else if view = ''pending'' then filter (\<lambda>t. status t = Str ''pending'') ts
                else if view = ''done'' then filter (\<lambda>t. status t = Str ''done'') ts
                else if view \<noteq> ''all'' then filter (\<lambda>t. category t = view) ts
                else ts);
          l2 = (if prio \<noteq> ''all'' then filter (\<lambda>t. priority t = Str prio) l1
                else l1)
      in case (if q \<noteq> [] then filter_e (matchesSearch (toLowerCase q)) l2
               else Inr l2) of
           Inl e \<Rightarrow> Inl e
         | Inr l3 \<Rightarrow> js_sort pf (compareTasks pf key) l3)"

section \<open>Concrete inputs\<close>

text \<open>Comparison of strings character by character, as a collation.\<close>

definition lex_compare :: "string \<Rightarrow> string \<Rightarrow> int" where
  "lex_compare a b = (if a < b then - 1 else if a = b then 0 else 1)"

text \<open>
  A platform in the time zone UTC at 2024-01-01T00:00:00.000Z, which is 1704067200000
  milliseconds after the epoch; it knows the time values of two date texts, and its
  engine sorts by insertion in every case.
\<close>

definition example_platform :: platform where
  "example_platform =
     \<lparr> dateTime = (\<lambda>v. if v = Str ''2024-01-03T00:00:00'' then Some 1704240000000
                        else if v = Str ''2023-12-31T10:00:00Z'' then Some 1704016800000
                        else None),
       parseInt = (\<lambda>v. if v = Str ''5'' then Some 5 else None),
       localeCompare = lex_compare,
       today = ''2024-01-01'',
       now = 1704067200000,
       engine_sort = (\<lambda>c xs. sort_into c [] xs),
       local_date = ''2024-01-01'' \<rparr>"


definition example_wire :: obj where
  "example_wire = obj_of
     [(''id'', Num 7), (''title'', Str '' Buy milk''), (''desc'', Null),
      (''category_id'', Num 5), (''priority'', Str ''high''), (''status'', Str ''pending''),
      (''due_date'', Str ''2024-01-03''), (''created_at'', Str ''2023-12-31T10:00:00Z'')]"

definition example_wire_zero :: obj where
  "example_wire_zero = obj_of
     [(''id'', Num 8), (''title'', Str ''Call bank''), (''desc'', Str ''ask''),
      (''category_id'', Num 0), (''priority'', Null), (''status'', Str ''done''),
      (''due_date'', Null), (''created_at'', Str ''2023-12-31T10:00:00Z'')]"

text \<open>A wire task with a status outside the data model, and one without a title.\<close>

definition example_wire_archived :: obj where
  "example_wire_archived = obj_of
     [(''id'', Num 9), (''title'', Str ''Old notes''), (''desc'', Null),
      (''category_id'', Null), (''priority'', Str ''low''), (''status'', Str ''archived''),
      (''due_date'', Null), (''created_at'', Str ''2023-12-31T10:00:00Z'')]"


definition example_tasks :: "task list" where
  "example_tasks =
     [\<lparr> task_id = ''1'', title = Str ''Buy Milk'', desc = Str [], category = ''5'',
        priority = Str ''high'', status = Str ''pending'', due = Str [],
        createdAt = Some 1704016800000 \<rparr>,
      \<lparr> task_id = ''2'', title = Str ''Call bank'', desc = Str ''about milk'', category = [],
        priority = Str ''low'', status = Str ''done'', due = Str ''2024-01-03'',
        createdAt = Some 1704016900000 \<rparr>,
      \<lparr> task_id = ''3'', title = Str ''Write report'', desc = Str [], category = ''5'',
        priority = Str ''medium'', status = Str ''pending'', due = Str ''2023-12-30'',
        createdAt = Some 1704016700000 \<rparr>]"


definition example_app :: app where
  "example_app =
     \<lparr> tasks = example_tasks,
       categories = [\<lparr> cat_id = ''5'', name = Str ''Work'', color = Str ''#6366f1'' \<rparr>,
                     \<lparr> cat_id = ''6'', name = Str ''Home'', color = Str ''#22c55e'' \<rparr>],
       filter_v = ''5'',
       storage = [''tf_token'' \<mapsto> ''abc'', ''tf_user'' \<mapsto> ''admin''],
       location_hash = ''/tasks'',
       notices = [],
       saving = False,
       taskDlg_show = True,
       taskDlg_isEdit = False,
       taskDlg_editId = Null,
       taskForm = obj_of [(''title'', Str ''Pay rent''), (''desc'', Str []),
                          (''category'', Str ''5''), (''priority'', Str ''medium''),
                          (''due'', Str []), (''status'', Str ''pending'')],
       catDlg_show = True,
       catForm = obj_of [(''name'', Str ''Travel''), (''color'', Str ''#6366f1'')] \<rparr>"

text \<open>Three networks: one answers 401, one does not answer, one answers 200.\<close>

definition net_unauthorized :: network where
  "net_unauthorized = (\<lambda>rq. Responded \<lparr> res_status = 401, res_body = None \<rparr>)"

definition net_down :: network where
  "net_down = (\<lambda>rq. Rejected)"

definition net_ok :: network where
  "net_ok = (\<lambda>rq. Responded \<lparr> res_status = 200, res_body = Some (obj_of []) \<rparr>)"

section \<open>Properties of the normalization layer\<close>

lemma obj_of_simps [simp]:
  "obj_of [] k = Undefined"
  "obj_of ((k', v) # kvs) k = (if k = k' then v else obj_of kvs k)"
  by (simp_all add: obj_of_def)

text \<open>A string that neither starts nor ends with white space is left alone by \<open>trim\<close>.\<close>

lemma trim_unspaced:
  assumes "s = [] \<or> \<not> is_space (hd s) \<and> \<not> is_space (last s)"
  shows "trim s = s"
proof (cases s)
  case Nil
  then show ?thesis by (simp add: trim_def)
next
  case (Cons c cs)
  with assms have h: "\<not> is_space (hd s)" and l: "\<not> is_space (last s)" by auto
  from Cons h have d: "dropWhile is_space s = s" by simp
  from Cons have ne: "rev s \<noteq> []" by simp
  from l ne have "\<not> is_space (hd (rev s))" by (metis hd_rev rev_is_Nil_conv)
  with ne have "dropWhile is_space (rev s) = rev s" by (cases "rev s") auto
  with d show ?thesis by (simp add: trim_def)
qed

text \<open>
  Claim C1, as stated, fails: the wire task with the title " Buy milk" (a leading
  space) comes back from \<open>normalizeTask\<close> and \<open>taskToPayload\<close> with the title
  "Buy milk".
\<close>

theorem roundtrip_counterexample:
  "payload_get ''title'' (taskToPayload example_platform
      (task_obj (normalizeTask example_platform example_wire))) = Inr (Str ''Buy milk'')
   \<and> example_wire ''title'' = Str '' Buy milk''"
  by (simp add: payload_get_def taskToPayload_def task_obj_def normalizeTask_def
      example_wire_def trim_def is_space_def)

text \<open>
  Claim C1, amended: for every wire task whose title is a string, \<open>normalizeTask\<close>
  followed by \<open>taskToPayload\<close> gives a payload whose title is the wire title with the
  white space at both ends removed, hence the wire title itself when it has none;
  whose priority and status are the wire values when these are non-empty, and
  \<open>medium\<close> and \<open>pending\<close> when they are missing, null or empty; and whose due date
  is the wire due date when it is non-empty, and null when it is null, missing or empty.
\<close>

theorem roundtrip_fields:
  assumes "w ''title'' = Str s"
  shows "payload_get ''title'' (taskToPayload pf (task_obj (normalizeTask pf w)))
           = Inr (Str (trim s))
    \<and> ((s = [] \<or> \<not> is_space (hd s) \<and> \<not> is_space (last s)) \<longrightarrow>
         payload_get ''title'' (taskToPayload pf (task_obj (normalizeTask pf w)))
           = Inr (w ''title''))
    \<and> payload_get ''priority'' (taskToPayload pf (task_obj (normalizeTask pf w)))
         = Inr (if truthy (w ''priority'') then w ''priority'' else Str ''medium'')
    \<and> payload_get ''status'' (taskToPayload pf (task_obj (normalizeTask pf w)))
         = Inr (if truthy (w ''status'') then w ''status'' else Str ''pending'')
    \<and> payload_get ''due_date'' (taskToPayload pf (task_obj (normalizeTask pf w)))
         = Inr (if truthy (w ''due_date'') then w ''due_date'' else Null)"
  using assms trim_unspaced [of s]
  by (simp add: payload_get_def taskToPayload_def task_obj_def normalizeTask_def js_or_def)

theorem roundtrip_fields_witness:
  "example_wire_zero ''title'' = Str ''Call bank''
   \<and> payload_get ''title'' (taskToPayload example_platform
        (task_obj (normalizeTask example_platform example_wire_zero))) = Inr (Str ''Call bank'')
   \<and> payload_get ''priority'' (taskToPayload example_platform
        (task_obj (normalizeTask example_platform example_wire_zero))) = Inr (Str ''medium'')
   \<and> payload_get ''status'' (taskToPayload example_platform
        (task_obj (normalizeTask example_platform example_wire_zero))) = Inr (Str ''done'')
   \<and> payload_get ''due_date'' (taskToPayload example_platform
        (task_obj (normalizeTask example_platform example_wire_zero))) = Inr Null"
proof -
  have t: "example_wire_zero ''title'' = Str ''Call bank''"
    by (simp add: example_wire_zero_def)
  have u: "trim ''Call bank'' = ''Call bank''"
    by (simp add: trim_def is_space_def)
  show ?thesis
    using t roundtrip_fields [where w = example_wire_zero and s = "''Call bank''"
        and pf = example_platform]
    by (simp add: u example_wire_zero_def)
qed

text \<open>
  Claim C2, as stated, fails: the client task made from a wire task with category 5
  and due date 2024-01-03 has no property \<open>category_id\<close> or \<open>due_date\<close>, so
  normalizing it again empties its category and its due date.
\<close>

theorem renormalize_counterexample:
  "category (normalizeTask example_platform
      (task_obj (normalizeTask example_platform example_wire))) = []
   \<and> category (normalizeTask example_platform example_wire) = ''5''
   \<and> due (normalizeTask example_platform
      (task_obj (normalizeTask example_platform example_wire))) = Str []
   \<and> due (normalizeTask example_platform example_wire) = Str ''2024-01-03''"
  by (simp add: task_obj_def normalizeTask_def example_wire_def js_or_def digits.simps)

text \<open>
  Claim C2, amended: applying \<open>normalizeTask\<close> to a task that is already in the client
  representation keeps its id, title, description, priority and status; the category
  and the due date of the result are empty and its creation time is the time value of
  an undefined date, because a client task has no \<open>category_id\<close>, \<open>due_date\<close> or
  \<open>created_at\<close>.
\<close>

theorem renormalize_fields:
  "task_id (normalizeTask pf (task_obj (normalizeTask pf w))) = task_id (normalizeTask pf w)
   \<and> title (normalizeTask pf (task_obj (normalizeTask pf w))) = title (normalizeTask pf w)
   \<and> desc (normalizeTask pf (task_obj (normalizeTask pf w))) = desc (normalizeTask pf w)
   \<and> priority (normalizeTask pf (task_obj (normalizeTask pf w))) = priority (normalizeTask pf w)
   \<and> status (normalizeTask pf (task_obj (normalizeTask pf w))) = status (normalizeTask pf w)
   \<and> category (normalizeTask pf (task_obj (normalizeTask pf w))) = []
   \<and> due (normalizeTask pf (task_obj (normalizeTask pf w))) = Str []
   \<and> createdAt (normalizeTask pf (task_obj (normalizeTask pf w))) = dateTime pf Undefined"
  by (simp add: task_obj_def normalizeTask_def js_or_def)

text \<open>
  Claim C9: a wire task whose \<open>category_id\<close> is the number 0 is normalized to the
  empty category, exactly as the same task with a null \<open>category_id\<close>.
\<close>

theorem category_zero:
  assumes "w ''category_id'' = Num 0"
  shows "category (normalizeTask pf w) = []
    \<and> normalizeTask pf w = normalizeTask pf (w(''category_id'' := Null))"
  using assms by (simp add: normalizeTask_def)

theorem category_zero_witness:
  "example_wire_zero ''category_id'' = Num 0
   \<and> category (normalizeTask example_platform example_wire_zero) = []
   \<and> normalizeTask example_platform example_wire_zero
       = normalizeTask example_platform (example_wire_zero(''category_id'' := Null))"
proof -
  have z: "example_wire_zero ''category_id'' = Num 0"
    by (simp add: example_wire_zero_def)
  from z category_zero [where w = example_wire_zero and pf = example_platform]
  show ?thesis by blast
qed

section \<open>Properties of the date helpers\<close>

text \<open>
  Claim C7, as stated, fails: at 2024-01-01T00:00:00.000Z the due date 2024-01-03,
  whose day starts exactly two days later, is soon, although it is not strictly before
  now plus two days.
\<close>

theorem soon_counterexample:
  "isSoon example_platform (Str ''2024-01-03'')
   \<and> dateTime example_platform (Str ''2024-01-03T00:00:00'') = Some 1704240000000
   \<and> \<not> (1704240000000 < now example_platform + 2 * 86400000)"
  by (simp add: isSoon_def example_platform_def)

text \<open>
  Claim C7, amended: \<open>isSoon(s)\<close> holds exactly when \<open>s\<close> is not empty, the start
  of the day \<open>s\<close> is a valid date, and it is at least now and at most now plus two
  days, both ends included; an empty due string is never soon.
\<close>

theorem soon_closed_range:
  "isSoon pf s =
     (truthy s \<and>
      (case dateTime pf (Str (to_string s @ ''T00:00:00'')) of
         None \<Rightarrow> False
       | Some t \<Rightarrow> now pf \<le> t \<and> t \<le> now pf + 2 * 86400000))
   \<and> \<not> isSoon pf (Str [])"
  by (auto simp add: isSoon_def Let_def field_simps split: option.splits)

section \<open>Properties of the aggregate counts\<close>

lemma count_two:
  assumes "\<And>t. \<not> (P t \<and> Q t)"
  shows "length (filter P ts) + length (filter Q ts) \<le> length ts
    \<and> (length (filter P ts) + length (filter Q ts) = length ts
         \<longleftrightarrow> (\<forall>t \<in> set ts. P t \<or> Q t))"
proof (induction ts)
  case Nil
  show ?case by simp
next
  case (Cons t ts)
  from assms [of t] Cons show ?case by (cases "P t"; cases "Q t") auto
qed

lemma count_mono:
  "length (filter (\<lambda>t. P t \<and> Q t) ts) \<le> length (filter P ts)"
  by (induction ts) auto

text \<open>
  Claim C5, as stated, fails: of the three tasks that \<open>normalizeTask\<close> makes from wire
  tasks with the statuses pending, done and archived, one is counted as pending and one
  as done, and the total is three.
\<close>

theorem counts_counterexample:
  "count_of ''pending'' (statsCards example_platform
      (map (normalizeTask example_platform)
        [example_wire, example_wire_zero, example_wire_archived])) = 1
   \<and> count_of ''done'' (statsCards example_platform
      (map (normalizeTask example_platform)
        [example_wire, example_wire_zero, example_wire_archived])) = 1
   \<and> count_of ''total'' (statsCards example_platform
      (map (normalizeTask example_platform)
        [example_wire, example_wire_zero, example_wire_archived])) = 3
   \<and> status (normalizeTask example_platform example_wire_archived) = Str ''archived''"
  by (simp add: statsCards_def count_of_def normalizeTask_def js_or_def example_wire_def
      example_wire_zero_def example_wire_archived_def)

text \<open>
  Claim C5, amended: for every task list the overdue count is at most the pending
  count, and the pending count plus the done count is at most the total count; the sum
  is the total count exactly when the status of every task is pending or done. This
  holds on the statistics cards and on the navigation items.
\<close>

theorem counts_consistent:
  "count_of ''pending'' (statsCards pf ts) + count_of ''done'' (statsCards pf ts)
     \<le> count_of ''total'' (statsCards pf ts)
   \<and> (count_of ''pending'' (statsCards pf ts) + count_of ''done'' (statsCards pf ts)
        = count_of ''total'' (statsCards pf ts)
      \<longleftrightarrow> (\<forall>t \<in> set ts. status t = Str ''pending'' \<or> status t = Str ''done''))
   \<and> count_of ''pending'' (navItems pf ts) + count_of ''done'' (navItems pf ts)
     \<le> count_of ''all'' (navItems pf ts)
   \<and> (count_of ''pending'' (navItems pf ts) + count_of ''done'' (navItems pf ts)
        = count_of ''all'' (navItems pf ts)
      \<longleftrightarrow> (\<forall>t \<in> set ts. status t = Str ''pending'' \<or> status t = Str ''done''))
   \<and> count_of ''overdue'' (statsCards pf ts) \<le> count_of ''pending'' (statsCards pf ts)"
proof -
  have "\<And>t. \<not> (status t = Str ''pending'' \<and> status t = Str ''done'')" by auto
  then have two: "length (filter (\<lambda>t. status t = Str ''pending'') ts)
        + length (filter (\<lambda>t. status t = Str ''done'') ts) \<le> length ts
    \<and> (length (filter (\<lambda>t. status t = Str ''pending'') ts)
        + length (filter (\<lambda>t. status t = Str ''done'') ts) = length ts
         \<longleftrightarrow> (\<forall>t \<in> set ts. status t = Str ''pending'' \<or> status t = Str ''done''))"
    by (rule count_two)
  have od: "length (filter (\<lambda>t. status t = Str ''pending'' \<and> isOverdue pf (due t)) ts)
      \<le> length (filter (\<lambda>t. status t = Str ''pending'') ts)"
    by (rule count_mono)
  have sc: "count_of ''pending'' (statsCards pf ts)
        = length (filter (\<lambda>t. status t = Str ''pending'') ts)
      \<and> count_of ''done'' (statsCards pf ts) = length (filter (\<lambda>t. status t = Str ''done'') ts)
      \<and> count_of ''total'' (statsCards pf ts) = length ts
      \<and> count_of ''overdue'' (statsCards pf ts)
        = length (filter (\<lambda>t. status t = Str ''pending'' \<and> isOverdue pf (due t)) ts)"
    by (simp add: statsCards_def count_of_def)
  have nv: "count_of ''pending'' (navItems pf ts)
        = length (filter (\<lambda>t. status t = Str ''pending'') ts)
      \<and> count_of ''done'' (navItems pf ts) = length (filter (\<lambda>t. status t = Str ''done'') ts)
      \<and> count_of ''all'' (navItems pf ts) = length ts"
    by (simp add: navItems_def count_of_def)
  from two od show ?thesis by (simp only: sc nv)
qed

theorem counts_consistent_witness:
  "list_all (\<lambda>t. status t = Str ''pending'' \<or> status t = Str ''done'') example_tasks
   \<and> count_of ''total'' (statsCards example_platform example_tasks) = 3
   \<and> count_of ''pending'' (statsCards example_platform example_tasks) = 2
   \<and> count_of ''done'' (statsCards example_platform example_tasks) = 1
   \<and> count_of ''overdue'' (statsCards example_platform example_tasks) = 1
   \<and> count_of ''pending'' (navItems example_platform example_tasks)
       + count_of ''done'' (navItems example_platform example_tasks)
       = count_of ''all'' (navItems example_platform example_tasks)"
proof -
  have h: "\<forall>t \<in> set example_tasks. status t = Str ''pending'' \<or> status t = Str ''done''"
    by (simp add: example_tasks_def)
  have p: "count_of ''pending'' (statsCards example_platform example_tasks) = 2"
    by (simp add: statsCards_def count_of_def example_tasks_def)
  have d: "count_of ''done'' (statsCards example_platform example_tasks) = 1"
    by (simp add: statsCards_def count_of_def example_tasks_def)
  have od: "count_of ''overdue'' (statsCards example_platform example_tasks) = 1"
    by (simp add: statsCards_def count_of_def example_tasks_def isOverdue_def
        example_platform_def)
  from h have l: "list_all (\<lambda>t. status t = Str ''pending'' \<or> status t = Str ''done'')
      example_tasks"
    by (simp only: list_all_iff)
  from counts_consistent [of example_platform example_tasks] h
  have "count_of ''pending'' (statsCards example_platform example_tasks)
        + count_of ''done'' (statsCards example_platform example_tasks)
        = count_of ''total'' (statsCards example_platform example_tasks)
    \<and> count_of ''pending'' (navItems example_platform example_tasks)
        + count_of ''done'' (navItems example_platform example_tasks)
        = count_of ''all'' (navItems example_platform example_tasks)"
    by blast
  with l p d od show ?thesis by simp
qed

section \<open>Properties of the HTTP client and of the operations\<close>

text \<open>
  Claim C4: whatever the method, the path and the body, when the response to the
  request has the status 401, \<open>request\<close> throws the session-expired error, and it
  has removed the token and the user name from the storage and set the address to the
  login view.
\<close>

theorem request_unauthorized:
  assumes "net (request_sent method path body a) = Responded res"
    and "res_status res = 401"
  shows "fst (request net method path body a) = Inl Session_Expired
    \<and> storage (snd (request net method path body a)) ''tf_token'' = None
    \<and> storage (snd (request net method path body a)) ''tf_user'' = None
    \<and> location_hash (snd (request net method path body a)) = ''/login''"
  using assms by (simp add: request_def)

theorem request_unauthorized_witness:
  "net_unauthorized (request_sent ''PUT'' ''/api/tasks/1'' None example_app)
     = Responded \<lparr> res_status = 401, res_body = None \<rparr>
   \<and> storage example_app ''tf_token'' = Some ''abc''
   \<and> fst (request net_unauthorized ''PUT'' ''/api/tasks/1'' None example_app)
       = Inl Session_Expired
   \<and> storage (snd (request net_unauthorized ''PUT'' ''/api/tasks/1'' None example_app))
       ''tf_token'' = None
   \<and> storage (snd (request net_unauthorized ''PUT'' ''/api/tasks/1'' None example_app))
       ''tf_user'' = None
   \<and> location_hash (snd (request net_unauthorized ''PUT'' ''/api/tasks/1'' None example_app))
       = ''/login''"
proof -
  have r: "net_unauthorized (request_sent ''PUT'' ''/api/tasks/1'' None example_app)
     = Responded \<lparr> res_status = 401, res_body = None \<rparr>"
    by (simp add: net_unauthorized_def)
  have s: "res_status \<lparr> res_status = 401, res_body = None \<rparr> = 401" by simp
  have t: "storage example_app ''tf_token'' = Some ''abc''" by (simp add: example_app_def)
  from request_unauthorized [where net = net_unauthorized, OF r s] r t
  show ?thesis by blast
qed

text \<open>\<open>request\<close> never touches the lists or the view filter.\<close>

lemma request_lists:
  assumes "request net m p b a = (r, a1)"
  shows "tasks a1 = tasks a \<and> categories a1 = categories a \<and> filter_v a1 = filter_v a"
  using assms by (auto simp add: request_def split: fetch_result.splits option.splits if_splits)

lemma request_fails_cases:
  "request_fails net m p b a \<Longrightarrow> \<exists>e a1. request net m p b a = (Inl e, a1)"
  unfolding request_fails_def by (cases "request net m p b a") (auto simp: isl_def)

lemma toggle_failed:
  assumes "request_fails net ''PUT'' (''/api/tasks/'' @ ident)
     (Some (obj_of [(''status'', Str (if cs = Str ''done'' then ''pending'' else ''done''))])) a"
  shows "tasks (toggleTaskApi pf net ident cs a) = tasks a
     \<and> categories (toggleTaskApi pf net ident cs a) = categories a"
proof -
  from request_fails_cases [OF assms] obtain e a1 where
    r: "request net ''PUT'' (''/api/tasks/'' @ ident)
     (Some (obj_of [(''status'', Str (if cs = Str ''done'' then ''pending'' else ''done''))])) a = (Inl e, a1)"
    by blast
  from request_lists [OF r]
  have "tasks a1 = tasks a \<and> categories a1 = categories a" by simp
  with r show ?thesis by (simp add: toggleTaskApi_def notify_def Let_def)
qed

lemma delete_task_failed:
  assumes "request_fails net ''DELETE'' (''/api/tasks/'' @ ident) None a"
  shows "tasks (confirmDeleteTask net confirmed ident a) = tasks a
     \<and> categories (confirmDeleteTask net confirmed ident a) = categories a"
proof -
  from request_fails_cases [OF assms] obtain e a1 where
    r: "request net ''DELETE'' (''/api/tasks/'' @ ident) None a = (Inl e, a1)"
    by blast
  from request_lists [OF r]
  have "tasks a1 = tasks a \<and> categories a1 = categories a" by simp
  with r show ?thesis by (simp add: confirmDeleteTask_def notify_def)
qed

lemma save_task_failed:
  assumes "\<forall>p. taskToPayload pf (taskForm a) = Inr p \<longrightarrow>
     request_fails net (if taskDlg_isEdit a then ''PUT'' else ''POST'')
       (if taskDlg_isEdit a then ''/api/tasks/'' @ to_string (taskDlg_editId a) else ''/api/tasks'')
       (Some p) (a\<lparr> saving := True \<rparr>)"
  shows "tasks (saveTaskApi pf net ok a) = tasks a
     \<and> categories (saveTaskApi pf net ok a) = categories a"
proof (cases "taskToPayload pf (taskForm a)")
  case (Inl e)
  then show ?thesis by (simp add: saveTaskApi_def saveTask_try_def notify_def)
next
  case (Inr p)
  let ?a = "a\<lparr> saving := True \<rparr>"
  let ?m = "if taskDlg_isEdit a then ''PUT'' else ''POST''"
  let ?p = "if taskDlg_isEdit a then ''/api/tasks/'' @ to_string (taskDlg_editId a) else ''/api/tasks''"
  from assms Inr have "request_fails net ?m ?p (Some p) ?a" by blast
  from request_fails_cases [OF this] obtain e a1 where
    r: "request net ?m ?p (Some p) ?a = (Inl e, a1)" by blast
  from request_lists [OF r]
  have "tasks a1 = tasks a \<and> categories a1 = categories a" by simp
  with r Inr show ?thesis
    by (simp add: saveTaskApi_def saveTask_try_def notify_def split: if_splits)
qed

lemma save_cat_failed:
  assumes "\<forall>n. catForm a ''name'' = Str n \<longrightarrow>
     request_fails net ''POST'' ''/api/categories''
       (Some (obj_of [(''name'', Str (trim n)), (''color'', catForm a ''color'')]))
       (a\<lparr> saving := True \<rparr>)"
  shows "tasks (saveCatApi net ok a) = tasks a
     \<and> categories (saveCatApi net ok a) = categories a"
proof (cases "\<exists>n. catForm a ''name'' = Str n")
  case False
  then show ?thesis
    by (cases "catForm a ''name''") (simp_all add: saveCatApi_def saveCat_try_def notify_def)
next
  case True
  then obtain n where n: "catForm a ''name'' = Str n" by blast
  let ?a = "a\<lparr> saving := True \<rparr>"
  let ?b = "Some (obj_of [(''name'', Str (trim n)), (''color'', catForm a ''color'')])"
  from assms n have "request_fails net ''POST'' ''/api/categories'' ?b ?a" by blast
  from request_fails_cases [OF this] obtain e a1 where
    r: "request net ''POST'' ''/api/categories'' ?b ?a = (Inl e, a1)" by blast
  from request_lists [OF r]
  have "tasks a1 = tasks a \<and> categories a1 = categories a" by simp
  with r n show ?thesis
    by (simp add: saveCatApi_def saveCat_try_def notify_def)
qed

lemma delete_cat_failed:
  assumes "request_fails net ''DELETE'' (''/api/categories/'' @ ident) None a"
  shows "tasks (deleteCategoryApi net ident a) = tasks a
     \<and> categories (deleteCategoryApi net ident a) = categories a"
proof -
  from request_fails_cases [OF assms] obtain e a1 where
    r: "request net ''DELETE'' (''/api/categories/'' @ ident) None a = (Inl e, a1)"
    by blast
  from request_lists [OF r]
  have "tasks a1 = tasks a \<and> categories a1 = categories a" by simp
  with r show ?thesis by (simp add: deleteCategoryApi_def notify_def)
qed

text \<open>
  Claim C6: for toggling, deleting, creating and updating a task and for creating and
  deleting a category, when the call of \<open>request\<close> that the operation makes throws,
  the task list and the category list after the operation are the lists before it.
\<close>

theorem failed_request_keeps_lists:
  "(request_fails net ''PUT'' (''/api/tasks/'' @ ident)
       (Some (obj_of [(''status'', Str (if cs = Str ''done'' then ''pending'' else ''done''))])) a
     \<longrightarrow> tasks (toggleTaskApi pf net ident cs a) = tasks a
         \<and> categories (toggleTaskApi pf net ident cs a) = categories a)
   \<and> (request_fails net ''DELETE'' (''/api/tasks/'' @ did) None a
     \<longrightarrow> tasks (confirmDeleteTask net confirmed did a) = tasks a
         \<and> categories (confirmDeleteTask net confirmed did a) = categories a)
   \<and> ((\<forall>p. taskToPayload pf (taskForm a) = Inr p \<longrightarrow>
          request_fails net (if taskDlg_isEdit a then ''PUT'' else ''POST'')
            (if taskDlg_isEdit a then ''/api/tasks/'' @ to_string (taskDlg_editId a)
             else ''/api/tasks'')
            (Some p) (a\<lparr> saving := True \<rparr>))
     \<longrightarrow> tasks (saveTaskApi pf net ok a) = tasks a
         \<and> categories (saveTaskApi pf net ok a) = categories a)
   \<and> ((\<forall>n. catForm a ''name'' = Str n \<longrightarrow>
          request_fails net ''POST'' ''/api/categories''
            (Some (obj_of [(''name'', Str (trim n)), (''color'', catForm a ''color'')]))
            (a\<lparr> saving := True \<rparr>))
     \<longrightarrow> tasks (saveCatApi net ok a) = tasks a
         \<and> categories (saveCatApi net ok a) = categories a)
   \<and> (request_fails net ''DELETE'' (''/api/categories/'' @ cid) None a
     \<longrightarrow> tasks (deleteCategoryApi net cid a) = tasks a
         \<and> categories (deleteCategoryApi net cid a) = categories a)"
  using toggle_failed [of net ident cs a pf] delete_task_failed [of net did a confirmed]
    save_task_failed [of pf a net ok] save_cat_failed [of a net ok]
    delete_cat_failed [of net cid a]
  by blast

lemma net_down_fails: "request_fails net_down m p b a"
  by (simp add: request_fails_def request_def net_down_def)

theorem failed_request_keeps_lists_witness:
  "request_fails net_down ''PUT'' (''/api/tasks/'' @ ''1'')
       (Some (obj_of [(''status'', Str (if Str ''pending'' = Str ''done'' then ''pending'' else ''done''))]))
       example_app
   \<and> request_fails net_down ''DELETE'' (''/api/categories/'' @ ''5'') None example_app
   \<and> taskToPayload example_platform (taskForm example_app) \<noteq> Inl Type_Error
   \<and> tasks (toggleTaskApi example_platform net_down ''1'' (Str ''pending'') example_app) = example_tasks
   \<and> tasks (confirmDeleteTask net_down True ''1'' example_app) = example_tasks
   \<and> tasks (saveTaskApi example_platform net_down True example_app) = example_tasks
   \<and> categories (saveCatApi net_down True example_app) = categories example_app
   \<and> categories (deleteCategoryApi net_down ''5'' example_app) = categories example_app"
proof -
  have t: "tasks example_app = example_tasks" by (simp add: example_app_def)
  have p: "taskToPayload example_platform (taskForm example_app) \<noteq> Inl Type_Error"
    by (simp add: taskToPayload_def example_app_def)
  from failed_request_keeps_lists [where net = net_down and ident = "''1''"
      and cs = "Str ''pending''" and a = example_app and pf = example_platform
      and did = "''1''" and cid = "''5''" and confirmed = True and ok = True]
    net_down_fails t p
  show ?thesis by simp
qed

text \<open>
  Claim C8: when the request of \<open>deleteCategoryApi\<close> succeeds, the category list
  afterwards is the list before without the categories of that id, so no category of
  that id is left; the view filter is \<open>all\<close> if it was that id, and is unchanged
  otherwise.
\<close>

theorem category_delete:
  assumes "fst (request net ''DELETE'' (''/api/categories/'' @ ident) None a) = Inr d"
  shows "categories (deleteCategoryApi net ident a)
           = filter (\<lambda>c. cat_id c \<noteq> ident) (categories a)
    \<and> (\<forall>c \<in> set (categories (deleteCategoryApi net ident a)). cat_id c \<noteq> ident)
    \<and> filter_v (deleteCategoryApi net ident a)
           = (if filter_v a = ident then ''all'' else filter_v a)
    \<and> tasks (deleteCategoryApi net ident a) = tasks a"
proof -
  obtain a1 where r: "request net ''DELETE'' (''/api/categories/'' @ ident) None a = (Inr d, a1)"
    using assms by (cases "request net ''DELETE'' (''/api/categories/'' @ ident) None a") auto
  from request_lists [OF r]
  have "tasks a1 = tasks a \<and> categories a1 = categories a \<and> filter_v a1 = filter_v a" .
  with r show ?thesis by (simp add: deleteCategoryApi_def notify_def Let_def)
qed

theorem category_delete_witness:
  "fst (request net_ok ''DELETE'' (''/api/categories/'' @ ''5'') None example_app) = Inr (obj_of [])
   \<and> filter_v example_app = ''5''
   \<and> map cat_id (categories example_app) = [''5'', ''6'']
   \<and> map cat_id (categories (deleteCategoryApi net_ok ''5'' example_app)) = [''6'']
   \<and> filter_v (deleteCategoryApi net_ok ''5'' example_app) = ''all''
   \<and> filter_v (deleteCategoryApi net_ok ''6'' example_app) = ''5''"
proof -
  have r5: "fst (request net_ok ''DELETE'' (''/api/categories/'' @ ''5'') None example_app)
      = Inr (obj_of [])"
    by (simp add: request_def net_ok_def res_ok_def)
  have r6: "fst (request net_ok ''DELETE'' (''/api/categories/'' @ ''6'') None example_app)
      = Inr (obj_of [])"
    by (simp add: request_def net_ok_def res_ok_def)
  have f: "filter_v example_app = ''5''" by (simp add: example_app_def)
  have c: "map cat_id (categories example_app) = [''5'', ''6'']" by (simp add: example_app_def)
  have c': "categories example_app = [\<lparr> cat_id = ''5'', name = Str ''Work'', color = Str ''#6366f1'' \<rparr>,
                     \<lparr> cat_id = ''6'', name = Str ''Home'', color = Str ''#22c55e'' \<rparr>]"
    by (simp add: example_app_def)
  from category_delete [OF r5] category_delete [OF r6] r5 f c c'
  show ?thesis by simp
qed

section \<open>Properties of the derived task view\<close>

text \<open>Arrays made during a run come after the arrays of the store it started in.\<close>

lemma on_top_spread: "on_top st (spread r st) (st ! r)"
  by (simp add: on_top_def spread_def alloc_def)

lemma on_top_alloc:
  assumes "on_top st ls xs"
  shows "on_top st (alloc ys (snd ls)) ys"
proof -
  from assms obtain zs where "snd ls = st @ zs @ [xs]" by (auto simp: on_top_def)
  then have "snd (alloc ys (snd ls)) = st @ (zs @ [xs]) @ [ys]
      \<and> fst (alloc ys (snd ls)) = length st + length (zs @ [xs])"
    by (simp add: alloc_def)
  then show ?thesis unfolding on_top_def by blast
qed

lemma on_top_filter_in:
  assumes "on_top st ls xs"
  shows "on_top st (filter_in p ls) (filter p xs)"
proof -
  from assms have "snd ls ! fst ls = xs" by (auto simp: on_top_def nth_append)
  with on_top_alloc [OF assms, of "filter p xs"] show ?thesis by (simp add: filter_in_def)
qed

lemma on_top_nth: "on_top st ls xs \<Longrightarrow> snd ls ! fst ls = xs"
  by (auto simp: on_top_def nth_append)

lemma on_top_take: "on_top st ls xs \<Longrightarrow> take (length st) (snd ls) = st"
  by (auto simp: on_top_def)

lemma on_top_update:
  assumes "on_top st ls xs"
  shows "take (length st) ((snd ls)[fst ls := ys]) = st \<and> (snd ls)[fst ls := ys] ! fst ls = ys"
proof -
  from assms obtain zs where s: "snd ls = st @ zs @ [xs]" and l: "fst ls = length st + length zs"
    by (auto simp: on_top_def)
  then show ?thesis by (simp add: list_update_append nth_append)
qed

text \<open>
  A run of \<open>visibleTasks\<close> returns what the same steps compute on the list stored
  at \<open>tasks_ref\<close>, and leaves every array of the store it started in as it was.
\<close>

lemma visibleTasks_list:
  "visible_result (visibleTasks pf view prio q key r st) = visible_list pf view prio q key (st ! r)
   \<and> take (length st) (snd (visibleTasks pf view prio q key r st)) = st"
proof -
  define ls0 where "ls0 = spread r st"
  define xs1 where "xs1 =
     (if view = ''today'' then filter (\<lambda>t. isToday pf (due t)) (st ! r)
      else if view = ''pending'' then filter (\<lambda>t. status t = Str ''pending'') (st ! r)
      else if view = ''done'' then filter (\<lambda>t. status t = Str ''done'') (st ! r)
      else if view \<noteq> ''all'' then filter (\<lambda>t. category t = view) (st ! r)
      else st ! r)"
  define ls1 where "ls1 =
     (if view = ''today'' then filter_in (\<lambda>t. isToday pf (due t)) ls0
      else if view = ''pending'' then filter_in (\<lambda>t. status t = Str ''pending'') ls0
      else if view = ''done'' then filter_in (\<lambda>t. status t = Str ''done'') ls0
      else if view \<noteq> ''all'' then filter_in (\<lambda>t. category t = view) ls0
      else ls0)"
  define xs2 where "xs2 = (if prio \<noteq> ''all'' then filter (\<lambda>t. priority t = Str prio) xs1 else xs1)"
  define ls2 where "ls2 = (if prio \<noteq> ''all'' then filter_in (\<lambda>t. priority t = Str prio) ls1 else ls1)"
  have t0: "on_top st ls0 (st ! r)" unfolding ls0_def by (rule on_top_spread)
  have t1: "on_top st ls1 xs1"
    unfolding ls1_def xs1_def using t0 by (simp add: on_top_filter_in)
  have t2: "on_top st ls2 xs2"
    unfolding ls2_def xs2_def using t1 by (simp add: on_top_filter_in)
  have n2: "snd ls2 ! fst ls2 = xs2" using t2 by (rule on_top_nth)
  have v: "visibleTasks pf view prio q key r st =
     (case (if q \<noteq> []
               then (case filter_e (matchesSearch (toLowerCase q)) xs2 of
                       Inl e \<Rightarrow> Inl e
                     | Inr ys \<Rightarrow> Inr (alloc ys (snd ls2)))
               else Inr ls2) of
           Inl e \<Rightarrow> (Inl e, snd ls2)
         | Inr ls3 \<Rightarrow>
             (case js_sort pf (compareTasks pf key) (snd ls3 ! fst ls3) of
                Inl e \<Rightarrow> (Inl e, snd ls3)
              | Inr ys \<Rightarrow> (Inr (fst ls3), (snd ls3)[fst ls3 := ys])))"
    unfolding visibleTasks_def Let_def ls2_def [symmetric] ls1_def [symmetric] ls0_def [symmetric]
      n2 [symmetric]
    by (simp only: ls2_def [symmetric] ls1_def [symmetric] ls0_def [symmetric])
  have l: "visible_list pf view prio q key (st ! r) =
     (case (if q \<noteq> [] then filter_e (matchesSearch (toLowerCase q)) xs2 else Inr xs2) of
           Inl e \<Rightarrow> Inl e
         | Inr l3 \<Rightarrow> js_sort pf (compareTasks pf key) l3)"
    unfolding visible_list_def Let_def xs2_def xs1_def by (rule refl)
  have tail: "\<And>ls3 xs3. on_top st ls3 xs3 \<Longrightarrow>
      visible_result (case js_sort pf (compareTasks pf key) (snd ls3 ! fst ls3) of
                Inl e \<Rightarrow> (Inl e, snd ls3)
              | Inr ys \<Rightarrow> (Inr (fst ls3), (snd ls3)[fst ls3 := ys]))
        = js_sort pf (compareTasks pf key) xs3
      \<and> take (length st) (snd (case js_sort pf (compareTasks pf key) (snd ls3 ! fst ls3) of
                Inl e \<Rightarrow> (Inl e, snd ls3)
              | Inr ys \<Rightarrow> (Inr (fst ls3), (snd ls3)[fst ls3 := ys]))) = st"
  proof -
    fix ls3 xs3 assume t3: "on_top st ls3 xs3"
    show "visible_result (case js_sort pf (compareTasks pf key) (snd ls3 ! fst ls3) of
                Inl e \<Rightarrow> (Inl e, snd ls3)
              | Inr ys \<Rightarrow> (Inr (fst ls3), (snd ls3)[fst ls3 := ys]))
        = js_sort pf (compareTasks pf key) xs3
      \<and> take (length st) (snd (case js_sort pf (compareTasks pf key) (snd ls3 ! fst ls3) of
                Inl e \<Rightarrow> (Inl e, snd ls3)
              | Inr ys \<Rightarrow> (Inr (fst ls3), (snd ls3)[fst ls3 := ys]))) = st"
      using on_top_nth [OF t3] on_top_take [OF t3] on_top_update [OF t3]
      by (cases "js_sort pf (compareTasks pf key) xs3") (simp_all add: visible_result_def)
  qed
  show ?thesis
  proof (cases "q \<noteq> []")
    case False
    with v l tail [OF t2] show ?thesis by simp
  next
    case True
    show ?thesis
    proof (cases "filter_e (matchesSearch (toLowerCase q)) xs2")
      case (Inl e)
      with True v l on_top_take [OF t2] show ?thesis by (simp add: visible_result_def)
    next
      case (Inr ys)
      with True v l tail [OF on_top_alloc [OF t2, of ys]] show ?thesis by simp
    qed
  qed
qed























lemma example_js_sort: "js_sort example_platform c xs = sort_into c [] xs"
  by (simp add: js_sort_def example_platform_def)

lemma example_collation: "localeCompare example_platform = lex_compare"
  by (simp add: example_platform_def)



text \<open>
  Claim C10: for every view filter, priority filter, search string and sort key, after
  \<open>visibleTasks\<close> the array stored at \<open>tasks_ref\<close> is the list it was, with the same
  members in the same order, and so is every other array that existed before.
\<close>

theorem visibleTasks_frame:
  assumes "tasks_ref < length st"
  shows "snd (visibleTasks pf view prio q key tasks_ref st) ! tasks_ref = st ! tasks_ref
    \<and> take (length st) (snd (visibleTasks pf view prio q key tasks_ref st)) = st"
proof -
  have t: "take (length st) (snd (visibleTasks pf view prio q key tasks_ref st)) = st"
    by (simp add: visibleTasks_list)
  from assms have "take (length st) (snd (visibleTasks pf view prio q key tasks_ref st)) ! tasks_ref
      = snd (visibleTasks pf view prio q key tasks_ref st) ! tasks_ref"
    by (rule nth_take)
  with t show ?thesis by simp
qed

lemma example_all_due:
  "visible_list example_platform ''all'' ''all'' [] ''due_asc'' example_tasks
     = Inr [example_tasks ! 2, example_tasks ! 1, example_tasks ! 0]"
  by (simp add: visible_list_def example_js_sort example_tasks_def compareTasks_def
      sort_value_def example_collation lex_compare_def)

theorem visibleTasks_frame_witness:
  "0 < length [example_tasks]
   \<and> snd (visibleTasks example_platform ''all'' ''all'' [] ''due_asc'' 0 [example_tasks]) ! 0
       = example_tasks
   \<and> visible_result (visibleTasks example_platform ''all'' ''all'' [] ''due_asc'' 0
        [example_tasks]) = Inr [example_tasks ! 2, example_tasks ! 1, example_tasks ! 0]"
proof -
  have h: "0 < length [example_tasks]" by simp
  have r: "visible_result (visibleTasks example_platform ''all'' ''all'' [] ''due_asc'' 0
        [example_tasks]) = Inr [example_tasks ! 2, example_tasks ! 1, example_tasks ! 0]"
    using example_all_due by (simp add: visibleTasks_list)
  from visibleTasks_frame [OF h, of example_platform "''all''" "''all''" "[]" "''due_asc''"] h r
  show ?thesis by simp
qed

end
